theory Spec2Isabelle
  imports Main
begin

section \<open>Strings as the component uses them\<close>

text \<open>
  JavaScript strings are modelled as \<open>string\<close> (a list of 8-bit characters, read as
  code units below 256). The helpers below are the string methods and regular
  expressions the booking component applies to phone numbers.
\<close>

definition isSpace :: "char \<Rightarrow> bool" where
  \<comment> \<open>the class \<open>\s\<close> (also what \<open>trim\<close> removes), restricted to code units below 256\<close>
  "isSpace c = (c \<in> set [CHR 0x09, CHR 0x0A, CHR 0x0B, CHR 0x0C, CHR 0x0D, CHR 0x20, CHR 0xA0])"

definition isDigit :: "char \<Rightarrow> bool" where
  \<comment> \<open>the class \<open>\d\<close>\<close>
  "isDigit c = (c \<in> set ''0123456789'')"

definition startsWith :: "string \<Rightarrow> string \<Rightarrow> bool" where
  "startsWith s p = (take (length p) s = p)"

definition stripCountryCode :: "string \<Rightarrow> string" where
  \<comment> \<open>\<open>s.replace(/^\+44/, '')\<close>\<close>
  "stripCountryCode s = (if startsWith s ''+44'' then drop 3 s else s)"

definition removeSpaces :: "string \<Rightarrow> string" where
  \<comment> \<open>\<open>s.replace(/\s/g, '')\<close>\<close>
  "removeSpaces s = filter (\<lambda>c. \<not> isSpace c) s"

definition trim :: "string \<Rightarrow> string" where
  "trim s = rev (dropWhile isSpace (rev (dropWhile isSpace s)))"

definition stripLeadingZeros :: "string \<Rightarrow> string" where
  \<comment> \<open>\<open>s.replace(/^0+/, '')\<close>\<close>
  "stripLeadingZeros s = dropWhile (\<lambda>c. c = CHR ''0'') s"

section \<open>Phone numbers (BookingPage.jsx, api.js)\<close>

definition validPrefixes :: "string list" where
  "validPrefixes =
     [''7'',
      ''20'', ''23'', ''24'', ''28'', ''29'',
      ''113'', ''114'', ''115'', ''116'', ''117'', ''118'', ''119'',
      ''121'', ''131'', ''141'', ''151'', ''161'', ''171'', ''181'', ''191'',
      ''1'']"

definition isValidUKPhone :: "string \<Rightarrow> bool" where
  "isValidUKPhone phone =
     (let cleaned = removeSpaces phone in
      if \<not> startsWith cleaned ''+44'' then False
      else
        let nationalNumber = drop 3 cleaned in
        if length nationalNumber < 10 \<or> length nationalNumber > 11 then False
        else list_ex (\<lambda>prefix. startsWith nationalNumber prefix) validPrefixes)"

text \<open>
  The same validator over the prefix table with the three-digit city codes left out,
  to compare with the validator over the full table.
\<close>

definition reducedPrefixes :: "string list" where
  "reducedPrefixes = [''7'', ''20'', ''23'', ''24'', ''28'', ''29'', ''1'']"

definition isValidUKPhone_reduced :: "string \<Rightarrow> bool" where
  "isValidUKPhone_reduced phone =
     (let cleaned = removeSpaces phone in
      if \<not> startsWith cleaned ''+44'' then False
      else
        let nationalNumber = drop 3 cleaned in
        if length nationalNumber < 10 \<or> length nationalNumber > 11 then False
        else list_ex (\<lambda>prefix. startsWith nationalNumber prefix) reducedPrefixes)"

text \<open>
  \<open>handleConfirmSchedule\<close>, lines 322 to 338: the digits read from the input state, the
  emptiness guard, the removal of leading zeros, the \<open>+44\<close> prefix and the validation.
  \<open>confirmDigits\<close> is the first assignment to \<open>digits\<close>; \<open>normalizePhone\<close> is the value of
  \<open>phoneNumber\<close>.
\<close>

definition confirmDigits :: "string \<Rightarrow> string" where
  "confirmDigits confirmedPhoneNumber = trim (removeSpaces (stripCountryCode confirmedPhoneNumber))"

definition normalizePhone :: "string \<Rightarrow> string" where
  "normalizePhone confirmedPhoneNumber = ''+44'' @ stripLeadingZeros (confirmDigits confirmedPhoneNumber)"

definition confirmSchedulePhone :: "string \<Rightarrow> string + string" where
  \<comment> \<open>\<open>Inl\<close>: the message passed to \<open>setError\<close> before the early return;
      \<open>Inr\<close>: the number handed on to the scheduling or immediate-call handler\<close>
  "confirmSchedulePhone confirmedPhoneNumber =
     (let digits = confirmDigits confirmedPhoneNumber in
      if digits = [] then Inl ''Please enter a valid UK phone number''
      else
        let phoneNumber = ''+44'' @ stripLeadingZeros digits in
        if \<not> isValidUKPhone phoneNumber
        then Inl ''Please enter a valid UK phone number (10-11 digits after +44)''
        else Inr phoneNumber)"

definition formatPhoneNumber :: "string \<Rightarrow> string" where
  "formatPhoneNumber phone =
     (let cleaned = filter (\<lambda>c. isDigit c \<or> c = CHR ''+'') phone in
      if startsWith cleaned ''+'' then cleaned else ''+'' @ cleaned)"

section \<open>Dates and the Europe/London zone (the platform's Date and Intl)\<close>

text \<open>
  An instant is a number of milliseconds since 1970-01-01T00:00:00Z, as the time value of
  a JavaScript \<open>Date\<close>; a calendar date is (year, month 1 to 12, day). The functions of
  this section stand for the platform: the proleptic Gregorian day count behind
  \<open>Date.UTC\<close> and the UTC getters, \<open>toISOString\<close>, the \<open>Date\<close> constructor on ISO 8601
  text, and the rules of Europe/London.
\<close>

type_synonym instant = int
type_synonym calendar_date = "int \<times> int \<times> int"

definition days_from_civil :: "int \<Rightarrow> int \<Rightarrow> int \<Rightarrow> int" where
  "days_from_civil y m d =
     (let y1 = (if m \<le> 2 then y - 1 else y);
          era = y1 div 400;
          yoe = y1 - era * 400;
          doy = (153 * (if m > 2 then m - 3 else m + 9) + 2) div 5 + d - 1;
          doe = yoe * 365 + yoe div 4 - yoe div 100 + doy
      in era * 146097 + doe - 719468)"

definition civil_from_days :: "int \<Rightarrow> calendar_date" where
  "civil_from_days z =
     (let z1 = z + 719468;
          era = z1 div 146097;
          doe = z1 - era * 146097;
          yoe = (doe - doe div 1460 + doe div 36524 - doe div 146096) div 365;
          doy = doe - (365 * yoe + yoe div 4 - yoe div 100);
          mp = (5 * doy + 2) div 153;
          d = doy - (153 * mp + 2) div 5 + 1;
          m = (if mp < 10 then mp + 3 else mp - 9)
      in (if m \<le> 2 then yoe + era * 400 + 1 else yoe + era * 400, m, d))"

definition msPerDay :: int where
  "msPerDay = 86400000"

definition dateUTC :: "int \<Rightarrow> int \<Rightarrow> int \<Rightarrow> int \<Rightarrow> int \<Rightarrow> instant" where
  \<comment> \<open>\<open>Date.UTC(year, month, day, hour, minute)\<close> with the month counted from 0\<close>
  "dateUTC year month0 day hour minute =
     days_from_civil year (month0 + 1) day * msPerDay + hour * 3600000 + minute * 60000"

definition weekdayOf :: "int \<Rightarrow> int" where
  \<comment> \<open>day of the week of a day count, 0 for Sunday (1970-01-01 was a Thursday)\<close>
  "weekdayOf days = (days + 4) mod 7"

definition lastSunday :: "int \<Rightarrow> int \<Rightarrow> int" where
  \<comment> \<open>day count of the last Sunday of a 31-day month\<close>
  "lastSunday y m = (let e = days_from_civil y m 31 in e - weekdayOf e)"

definition europeLondon :: "instant \<Rightarrow> int" where
  \<comment> \<open>minutes ahead of UTC at an instant: British Summer Time from 01:00 UTC on the last
      Sunday of March to 01:00 UTC on the last Sunday of October (the rule in force since 1996)\<close>
  "europeLondon t =
     (let y = fst (civil_from_days (t div msPerDay));
          summerStart = lastSunday y 3 * msPerDay + 3600000;
          summerEnd = lastSunday y 10 * msPerDay + 3600000
      in if summerStart \<le> t \<and> t < summerEnd then 60 else 0)"

record wall_clock =
  wc_year :: int
  wc_month :: int
  wc_day :: int
  wc_weekday :: int
  wc_hour :: int
  wc_minute :: int

definition wallClock :: "(instant \<Rightarrow> int) \<Rightarrow> instant \<Rightarrow> wall_clock" where
  \<comment> \<open>the calendar fields a formatter shows for an instant in a zone\<close>
  "wallClock zone t =
     (let local = t + zone t * 60000;
          days = local div msPerDay;
          (y, m, d) = civil_from_days days
      in \<lparr>wc_year = y, wc_month = m, wc_day = d, wc_weekday = weekdayOf days,
          wc_hour = (local div 3600000) mod 24, wc_minute = (local div 60000) mod 60\<rparr>)"

definition digitChar :: "nat \<Rightarrow> char" where
  "digitChar n = ''0123456789'' ! n"

fun showNat :: "nat \<Rightarrow> string" where
  "showNat n = (if n < 10 then [digitChar n] else showNat (n div 10) @ [digitChar (n mod 10)])"

definition padStart :: "nat \<Rightarrow> string \<Rightarrow> string" where
  \<comment> \<open>\<open>s.padStart(k, '0')\<close>\<close>
  "padStart k s = replicate (k - length s) CHR ''0'' @ s"

definition showYear :: "int \<Rightarrow> string" where
  \<comment> \<open>the year of \<open>toISOString\<close>: four digits, or a sign and six digits outside 0 to 9999\<close>
  "showYear y =
     (if 0 \<le> y \<and> y \<le> 9999 then padStart 4 (showNat (nat y))
      else (if y < 0 then ''-'' else ''+'') @ padStart 6 (showNat (nat \<bar>y\<bar>)))"

definition toISOString :: "instant \<Rightarrow> string" where
  "toISOString t =
     (let (y, m, d) = civil_from_days (t div msPerDay);
          ms = t mod msPerDay
      in showYear y @ ''-'' @ padStart 2 (showNat (nat m)) @ ''-'' @ padStart 2 (showNat (nat d)) @
         ''T'' @ padStart 2 (showNat (nat (ms div 3600000))) @
         '':'' @ padStart 2 (showNat (nat ((ms div 60000) mod 60))) @
         '':'' @ padStart 2 (showNat (nat ((ms div 1000) mod 60))) @
         ''.'' @ padStart 3 (showNat (nat (ms mod 1000))) @ ''Z'')"

definition digitVal :: "char \<Rightarrow> int" where
  "digitVal c = (case map_of (zip ''0123456789'' [0, 1, 2, 3, 4, 5, 6, 7, 8, 9]) c of
                   Some v \<Rightarrow> v
                 | None \<Rightarrow> 0)"

definition parseInt :: "string \<Rightarrow> int" where
  \<comment> \<open>\<open>parseInt(s, 10)\<close> on a non-empty string of digits\<close>
  "parseInt s = foldl (\<lambda>a c. 10 * a + digitVal c) 0 s"

definition allDigits :: "string \<Rightarrow> bool" where
  "allDigits s = (s \<noteq> [] \<and> list_all isDigit s)"

definition newDate :: "string \<Rightarrow> instant option" where
  \<comment> \<open>\<open>new Date(s)\<close> on the form \<open>YYYY-MM-DDTHH:mm:ss.sssZ\<close> that \<open>toISOString\<close> writes
      (the fraction may be absent); \<open>None\<close> is the Invalid Date, which this model also
      returns for the other date formats the platform would read\<close>
  "newDate s =
     (let y = take 4 s; mo = take 2 (drop 5 s); d = take 2 (drop 8 s);
          h = take 2 (drop 11 s); mi = take 2 (drop 14 s); se = take 2 (drop 17 s);
          rest = drop 19 s;
          frac = (if rest = ''Z'' then Some ''000''
                  else if length rest = 5 \<and> take 1 rest = ''.'' \<and> drop 4 rest = ''Z''
                          \<and> allDigits (take 3 (drop 1 rest))
                  then Some (take 3 (drop 1 rest)) else None)
      in case frac of
           None \<Rightarrow> None
         | Some ms \<Rightarrow>
             if length y = 4 \<and> allDigits y \<and> take 1 (drop 4 s) = ''-'' \<and>
                length mo = 2 \<and> allDigits mo \<and> take 1 (drop 7 s) = ''-'' \<and>
                length d = 2 \<and> allDigits d \<and> take 1 (drop 10 s) = ''T'' \<and>
                length h = 2 \<and> allDigits h \<and> take 1 (drop 13 s) = '':'' \<and>
                length mi = 2 \<and> allDigits mi \<and> take 1 (drop 16 s) = '':'' \<and>
                length se = 2 \<and> allDigits se \<and>
                1 \<le> parseInt mo \<and> parseInt mo \<le> 12 \<and> 1 \<le> parseInt d \<and> parseInt d \<le> 31 \<and>
                parseInt h \<le> 23 \<and> parseInt mi \<le> 59 \<and> parseInt se \<le> 59
             then Some (dateUTC (parseInt y) (parseInt mo - 1) (parseInt d) (parseInt h) (parseInt mi)
                        + parseInt se * 1000 + parseInt ms)
             else None)"

section \<open>Time labels and the conversion to UTC (dateUtils.js, BookingPage.jsx, TimeSlotSelector.jsx)\<close>

definition toUpperChar :: "char \<Rightarrow> char" where
  "toUpperChar c =
     (case map_of (zip ''abcdefghijklmnopqrstuvwxyz'' ''ABCDEFGHIJKLMNOPQRSTUVWXYZ'') c of
        Some u \<Rightarrow> u
      | None \<Rightarrow> c)"

definition toUpperCase :: "string \<Rightarrow> string" where
  \<comment> \<open>\<open>s.toUpperCase()\<close> on the letters a to z; other characters are left as they are\<close>
  "toUpperCase s = map toUpperChar s"

definition matchAt :: "string \<Rightarrow> (string \<times> string \<times> string) option" where
  \<comment> \<open>the pattern \<open>(\d+):(\d+)\s*(AM|PM)\<close>, ignoring case, tried at the start of \<open>s\<close>:
      each repetition can only match its longest run, since what follows a shorter run
      is a character of the run itself\<close>
  "matchAt s =
     (let g1 = takeWhile isDigit s; r1 = dropWhile isDigit s in
      if g1 = [] \<or> take 1 r1 \<noteq> '':'' then None
      else
        let g2 = takeWhile isDigit (drop 1 r1); r2 = dropWhile isDigit (drop 1 r1);
            g3 = take 2 (dropWhile isSpace r2)
        in if g2 \<noteq> [] \<and> (toUpperCase g3 = ''AM'' \<or> toUpperCase g3 = ''PM'')
           then Some (g1, g2, g3) else None)"

fun timeMatch :: "string \<Rightarrow> (string \<times> string \<times> string) option" where
  \<comment> \<open>\<open>timeString.match(...)\<close>: the leftmost position where the pattern matches\<close>
  "timeMatch [] = None"
| "timeMatch (c # cs) = (case matchAt (c # cs) of Some m \<Rightarrow> Some m | None \<Rightarrow> timeMatch cs)"

definition to24Hour :: "string \<Rightarrow> int \<Rightarrow> int" where
  "to24Hour period hours =
     (if period = ''PM'' \<and> hours \<noteq> 12 then hours + 12
      else if period = ''AM'' \<and> hours = 12 then 0
      else hours)"

definition convertToISO8601 :: "calendar_date \<Rightarrow> string \<Rightarrow> string + string" where
  \<comment> \<open>\<open>Inl\<close> is the message of the thrown error\<close>
  "convertToISO8601 date timeString =
     (case timeMatch timeString of
        None \<Rightarrow> Inl ''Invalid time format''
      | Some (g1, g2, g3) \<Rightarrow>
          let minutes = parseInt g2;
              hours = to24Hour (toUpperCase g3) (parseInt g1);
              (year, month, day) = date;
              referenceUTC = dateUTC year (month - 1) day hours minutes;
              ukDisplay = wallClock europeLondon referenceUTC;
              hourDiff = hours - wc_hour ukDisplay;
              minuteDiff = minutes - wc_minute ukDisplay;
              totalDiffMinutes = hourDiff * 60 + minuteDiff;
              adjustedUTC = referenceUTC + totalDiffMinutes * 60000
          in Inr (toISOString adjustedUTC))"

definition parseISO8601 :: "string \<Rightarrow> instant option" where
  "parseISO8601 isoString = newDate isoString"

record display_date =
  weekday :: int
  day :: int
  month :: int
  year :: int

record display_time =
  hour12 :: int
  minute :: int
  pm :: bool

record display_info =
  date :: "display_date option"
  time :: "display_time option"
  timezone :: string

definition toLocaleDateFields :: "(instant \<Rightarrow> int) \<Rightarrow> instant \<Rightarrow> display_date" where
  \<comment> \<open>what \<open>toLocaleDateString\<close> prints with a long weekday, day, long month and year\<close>
  "toLocaleDateFields zone t =
     (let w = wallClock zone t
      in \<lparr>weekday = wc_weekday w, day = wc_day w, month = wc_month w, year = wc_year w\<rparr>)"

definition toLocaleTimeFields :: "(instant \<Rightarrow> int) \<Rightarrow> instant \<Rightarrow> display_time" where
  \<comment> \<open>what \<open>toLocaleTimeString\<close> prints with \<open>hour12: true\<close>: hour 1 to 12, minute, am or pm\<close>
  "toLocaleTimeFields zone t =
     (let w = wallClock zone t
      in \<lparr>hour12 = (if wc_hour w mod 12 = 0 then 12 else wc_hour w mod 12),
          minute = wc_minute w, pm = (12 \<le> wc_hour w)\<rparr>)"

definition formatISO8601ForDisplay :: "string \<Rightarrow> display_info" where
  \<comment> \<open>the locale text is left to the platform: the result holds the fields it prints,
      \<open>None\<close> where it prints Invalid Date\<close>
  "formatISO8601ForDisplay isoString =
     (let date = parseISO8601 isoString
      in \<lparr>date = map_option (toLocaleDateFields europeLondon) date,
          time = map_option (toLocaleTimeFields europeLondon) date,
          timezone = ''Europe/London''\<rparr>)"

definition timeLabel :: "nat \<Rightarrow> nat \<Rightarrow> string" where
  \<comment> \<open>the en-US label of \<open>generateTimeSlots\<close> for an hour and minute of the day\<close>
  "timeLabel h m =
     showNat (if h mod 12 = 0 then 12 else h mod 12) @ '':'' @ padStart 2 (showNat m) @
     (if h < 12 then '' AM'' else '' PM'')"

definition generateTimeSlots :: "string list" where
  "generateTimeSlots = concat (map (\<lambda>h. map (\<lambda>m. timeLabel h m) [0, 15, 30, 45]) [0..<24])"

definition selectedDateTime :: "calendar_date \<Rightarrow> string \<Rightarrow> string + instant" where
  \<comment> \<open>\<open>handleScheduleCall\<close>, lines 203 to 253: \<open>Inl\<close> is the message passed to \<open>setError\<close>,
      \<open>Inr\<close> the time value of \<open>selectedDateTime\<close>\<close>
  "selectedDateTime selectedDate selectedTime =
     (case timeMatch selectedTime of
        None \<Rightarrow> Inl ''Invalid time format''
      | Some (g1, g2, g3) \<Rightarrow>
          let minutes = parseInt g2;
              hours = to24Hour (toUpperCase g3) (parseInt g1);
              (year, month, day) = selectedDate;
              ukTimeMs = dateUTC year (month - 1) day hours minutes;
              ukDisplay = wallClock europeLondon ukTimeMs;
              hourOffset = hours - wc_hour ukDisplay;
              minuteOffset = minutes - wc_minute ukDisplay;
              totalOffsetMs = (hourOffset * 60 + minuteOffset) * 60000
          in Inr (ukTimeMs - totalOffsetMs))"

section \<open>JSON values, responses and errors (api.js)\<close>

text \<open>
  The values \<open>response.json()\<close> can give. A number is a value of the type parameter
  \<open>'n\<close>: the client only tests a number for truthiness and converts it to text, and both
  are the platform's, taken as the two fields of \<open>number_ops\<close>.
\<close>

datatype 'n json =
    JNull
  | JBool bool
  | JNum 'n
  | JStr string
  | JArr "'n json list"
  | JObj "(string \<times> 'n json) list"

record 'n number_ops =
  isFalsy :: "'n \<Rightarrow> bool"
  numberToString :: "'n \<Rightarrow> string"

fun truthy :: "'n number_ops \<Rightarrow> 'n json \<Rightarrow> bool" where
  "truthy ops JNull = False"
| "truthy ops (JBool b) = b"
| "truthy ops (JNum n) = (\<not> isFalsy ops n)"
| "truthy ops (JStr s) = (s \<noteq> [])"
| "truthy ops (JArr xs) = True"
| "truthy ops (JObj kvs) = True"

fun isNull :: "'n json \<Rightarrow> bool" where
  "isNull JNull = True"
| "isNull v = False"

fun joinWith :: "string \<Rightarrow> string list \<Rightarrow> string" where
  "joinWith sep [] = []"
| "joinWith sep [x] = x"
| "joinWith sep (x # y # ys) = x @ sep @ joinWith sep (y # ys)"

record js_error =
  message :: string
  error_status :: "nat option"

definition newError :: "string \<Rightarrow> js_error" where
  \<comment> \<open>an \<open>Error\<close> (or a TypeError of the platform) with its message and no status field\<close>
  "newError m = \<lparr>message = m, error_status = None\<rparr>"

fun firstError :: "(js_error + 'a) list \<Rightarrow> js_error + 'a list" where
  \<comment> \<open>the results of a run of conversions, or the error of the first that throws\<close>
  "firstError [] = Inr []"
| "firstError (Inl e # rs) = Inl e"
| "firstError (Inr x # rs) = (case firstError rs of Inl e \<Rightarrow> Inl e | Inr xs \<Rightarrow> Inr (x # xs))"

fun toStringJS :: "'n number_ops \<Rightarrow> 'n json \<Rightarrow> js_error + string" where
  \<comment> \<open>the string conversion that \<open>new Error(v)\<close>, a template literal and \<open>setItem\<close> apply
      to a value; \<open>Inl\<close> is the TypeError it throws. An array is joined with commas, a
      \<open>null\<close> element giving the empty text. An object with a key \<open>toString\<close> of its own
      has no callable \<open>toString\<close>, and its \<open>valueOf\<close> (its own, not callable, or the
      inherited one, which gives back the object) yields no primitive: the conversion
      throws. Any other object prints through the inherited \<open>toString\<close>.\<close>
  "toStringJS ops JNull = Inr ''null''"
| "toStringJS ops (JBool b) = Inr (if b then ''true'' else ''false'')"
| "toStringJS ops (JNum n) = Inr (numberToString ops n)"
| "toStringJS ops (JStr s) = Inr s"
| "toStringJS ops (JArr xs) =
     (case firstError (map (\<lambda>x. if isNull x then Inr [] else toStringJS ops x) xs) of
        Inl e \<Rightarrow> Inl e
      | Inr parts \<Rightarrow> Inr (joinWith '','' parts))"
| "toStringJS ops (JObj kvs) =
     (if ''toString'' \<in> set (map fst kvs)
      then Inl (newError ''Cannot convert object to primitive value'')
      else Inr ''[object Object]'')"

fun getProp :: "'n json \<Rightarrow> string \<Rightarrow> js_error + 'n json option" where
  \<comment> \<open>\<open>v.k\<close> for a key that is no built-in property: \<open>Inl\<close> is the TypeError thrown on
      \<open>null\<close>, \<open>Inr None\<close> is \<open>undefined\<close>; of a repeated key the parser keeps the last\<close>
  "getProp JNull k = Inl (newError ''Cannot read properties of null'')"
| "getProp (JObj kvs) k = Inr (map_of (rev kvs) k)"
| "getProp v k = Inr None"

record 'n response =
  status :: nat
  statusText :: string
  body :: "'n json option"

definition ok :: "'n response \<Rightarrow> bool" where
  "ok r = (200 \<le> status r \<and> status r \<le> 299)"

definition httpLine :: "'n response \<Rightarrow> string" where
  "httpLine r = ''HTTP '' @ showNat (status r) @ '': '' @ statusText r"

definition handleApiError :: "'n number_ops \<Rightarrow> 'n response \<Rightarrow> js_error + js_error" where
  \<comment> \<open>\<open>Inr\<close> is the error value returned. \<open>errorMessage\<close> is the value the \<open>try\<close> block
      leaves: \<open>body r = None\<close> is \<open>response.json()\<close> rejecting, and the \<open>catch\<close> also takes
      the TypeError of reading \<open>detail\<close> from \<open>null\<close>. \<open>new Error(errorMessage)\<close> comes after
      the \<open>try\<close>: when the conversion of \<open>errorMessage\<close> to text throws, the function
      throws, which is \<open>Inl\<close>.\<close>
  "handleApiError ops r =
     (let errorMessage =
        (case body r of
           None \<Rightarrow> JStr (httpLine r)
         | Some errorData \<Rightarrow>
             (case getProp errorData ''detail'' of
                Inl e \<Rightarrow> JStr (httpLine r)
              | Inr detail \<Rightarrow>
                  (case detail of
                     Some d \<Rightarrow>
                       if truthy ops d then d
                       else (case errorData of JStr s \<Rightarrow> JStr s | _ \<Rightarrow> JStr ''An error occurred'')
                   | None \<Rightarrow>
                       (case errorData of JStr s \<Rightarrow> JStr s | _ \<Rightarrow> JStr ''An error occurred''))))
      in case toStringJS ops errorMessage of
           Inl e \<Rightarrow> Inl e
         | Inr m \<Rightarrow> Inr \<lparr>message = m, error_status = Some (status r)\<rparr>)"

section \<open>The authenticated client (api.js)\<close>

text \<open>
  The network is a script: \<open>pending\<close> lists what the coming calls of \<open>fetch\<close> will
  settle with, in order (\<open>Inl\<close> is a rejection), and \<open>sent\<close> records every request
  issued. \<open>auth_token\<close> is the entry of the local storage.
\<close>

record request =
  url :: string
  http_method :: "string option"
  contentType :: string
  authorization :: "string option"
  payload :: "string option"

record 'n world =
  auth_token :: "string option"
  pending :: "(js_error + 'n response) list"
  sent :: "request list"

record fetch_options =
  opt_method :: "string option"
  opt_body :: "string option"

definition API_BASE_URL :: string where
  "API_BASE_URL = ''http://localhost:8000''"

definition fetch :: "request \<Rightarrow> 'n world \<Rightarrow> (js_error + 'n response) \<times> 'n world" where
  "fetch req w =
     (case pending w of
        [] \<Rightarrow> (Inl (newError ''Failed to fetch''), w\<lparr>sent := sent w @ [req]\<rparr>)
      | r # rs \<Rightarrow> (r, w\<lparr>pending := rs, sent := sent w @ [req]\<rparr>))"

definition getAuthToken :: "'n world \<Rightarrow> string option" where
  "getAuthToken w = auth_token w"

definition setAuthToken :: "string \<Rightarrow> 'n world \<Rightarrow> 'n world" where
  "setAuthToken token w = w\<lparr>auth_token := Some token\<rparr>"

definition loginRequest :: request where
  "loginRequest =
     \<lparr>url = API_BASE_URL @ ''/auth/login'', http_method = Some ''POST'',
      contentType = ''application/x-www-form-urlencoded'', authorization = None,
      payload = Some ''username=frontend-service%40email.com&password=password''\<rparr>"

definition login :: "'n number_ops \<Rightarrow> 'n world \<Rightarrow> (js_error + string) \<times> 'n world" where
  \<comment> \<open>\<open>Inl\<close> is what \<open>login\<close> throws: the error of \<open>handleApiError\<close> or the TypeError
      that function throws itself, a body that is not JSON, a missing token, or the
      TypeError of \<open>setItem\<close> on a token with no text. The token is returned as the text
      that the storage and the header hold.\<close>
  "login ops w =
     (case fetch loginRequest w of
        (Inl e, w1) \<Rightarrow> (Inl e, w1)
      | (Inr r, w1) \<Rightarrow>
          if \<not> ok r then
            (case handleApiError ops r of
               Inl e \<Rightarrow> (Inl e, w1)
             | Inr e \<Rightarrow> (Inl e, w1))
          else
            (case body r of
               None \<Rightarrow> (Inl (newError ''Unexpected token''), w1)
             | Some data \<Rightarrow>
                 (case getProp data ''access_token'' of
                    Inl e \<Rightarrow> (Inl e, w1)
                  | Inr None \<Rightarrow> (Inl (newError ''No access token received from login''), w1)
                  | Inr (Some token) \<Rightarrow>
                      if \<not> truthy ops token
                      then (Inl (newError ''No access token received from login''), w1)
                      else
                        (case toStringJS ops token of
                           Inl e \<Rightarrow> (Inl e, w1)
                         | Inr t \<Rightarrow> (Inr t, setAuthToken t w1)))))"

definition apiCall :: "string \<Rightarrow> fetch_options \<Rightarrow> string option \<Rightarrow> request" where
  \<comment> \<open>the request that \<open>apiRequest\<close> hands to \<open>fetch\<close>, with the bearer token if any\<close>
  "apiCall endpoint options bearer =
     \<lparr>url = API_BASE_URL @ endpoint, http_method = opt_method options,
      contentType = ''application/json'',
      authorization = map_option (\<lambda>t. ''Bearer '' @ t) bearer,
      payload = opt_body options\<rparr>"

definition hasToken :: "string option \<Rightarrow> bool" where
  \<comment> \<open>the truthiness of a string or \<open>null\<close>\<close>
  "hasToken t = (case t of None \<Rightarrow> False | Some s \<Rightarrow> s \<noteq> [])"

definition apiRequest ::
  "'n number_ops \<Rightarrow> string \<Rightarrow> fetch_options \<Rightarrow> 'n world \<Rightarrow> (js_error + 'n response) \<times> 'n world" where
  "apiRequest ops endpoint options w =
     (let token = getAuthToken w;
          bearer = (if hasToken token then token else None)
      in case fetch (apiCall endpoint options bearer) w of
           (Inl e, w1) \<Rightarrow> (Inl e, w1)
         | (Inr r, w1) \<Rightarrow>
             if status r = 401 \<and> hasToken token then
               (case login ops w1 of
                  (Inl loginError, w2) \<Rightarrow> (Inr r, w2)
                | (Inr newToken, w2) \<Rightarrow>
                    (case fetch (apiCall endpoint options (Some newToken)) w2 of
                       (Inl loginError, w3) \<Rightarrow> (Inr r, w3)
                     | (Inr r2, w3) \<Rightarrow> (Inr r2, w3)))
             else (Inr r, w1))"

section \<open>The booking page state (BookingPage.jsx)\<close>

record next_call =
  scheduled :: "string option"
  call_status :: "string option"

record status_data =
  has_scheduled_call :: "bool option"
  next_scheduled_call :: "next_call option"
  is_future :: "bool option"
  candidate_phone_number :: "string option"

record scheduled_call_info =
  scheduledTime :: instant
  isFuture :: bool
  info_status :: "string option"

record cancel_result =
  canceled_count :: int

record booking_state =
  selectedDate :: "calendar_date option"
  selectedTime :: "string option"
  isSubmitted :: bool
  isLoading :: bool
  error :: "string option"
  scheduledCallInfo :: "scheduled_call_info option"
  candidatePhoneNumber :: "string option"
  isCheckingCall :: bool
  isTriggeringCall :: bool
  showConfirmationModal :: bool
  isImmediateCall :: bool
  confirmedPhoneNumber :: string
  isCanceling :: bool

definition initialState :: booking_state where
  "initialState =
     \<lparr>selectedDate = None, selectedTime = None, isSubmitted = False, isLoading = False,
      error = None, scheduledCallInfo = None, candidatePhoneNumber = None,
      isCheckingCall = False, isTriggeringCall = False, showConfirmationModal = False,
      isImmediateCall = False, confirmedPhoneNumber = [], isCanceling = False\<rparr>"

definition displayPhone :: "string \<Rightarrow> string" where
  \<comment> \<open>the number of the response with its country code, lines 101 to 108\<close>
  "displayPhone phone =
     (if startsWith phone ''44'' \<and> \<not> startsWith phone ''+44'' then ''+'' @ phone
      else if startsWith phone ''0'' then ''+44'' @ drop 1 phone
      else phone)"

definition isCanceledStatus :: "string option \<Rightarrow> bool" where
  "isCanceledStatus callStatus = (callStatus = Some ''CANCELED'' \<or> callStatus = Some ''CANCELLED'')"

definition loadScheduledCall ::
  "(string \<Rightarrow> instant option) \<Rightarrow> string option \<Rightarrow> (js_error + status_data option) \<Rightarrow> instant \<Rightarrow>
   booking_state \<Rightarrow> booking_state" where
  \<comment> \<open>\<open>parseDate\<close> is the \<open>Date\<close> constructor on text (\<open>None\<close> for an Invalid Date),
      \<open>outcome\<close> what \<open>checkScheduledCall\<close> settles with (\<open>Inr None\<close> on a 404),
      \<open>now\<close> the clock when the payload is examined\<close>
  "loadScheduledCall parseDate candidateId outcome now s =
     (if \<not> hasToken candidateId then s
      else
        let s1 = s\<lparr>isCheckingCall := True\<rparr>;
            s2 =
              (case outcome of
                 Inl err \<Rightarrow> s1\<lparr>scheduledCallInfo := None\<rparr>
               | Inr data \<Rightarrow>
                   let s3 =
                         (case (case data of None \<Rightarrow> None | Some d \<Rightarrow> candidate_phone_number d) of
                            None \<Rightarrow> s1\<lparr>candidatePhoneNumber := None, confirmedPhoneNumber := []\<rparr>
                          | Some p \<Rightarrow>
                              if p = [] then s1\<lparr>candidatePhoneNumber := None, confirmedPhoneNumber := []\<rparr>
                              else s1\<lparr>candidatePhoneNumber := Some (displayPhone p),
                                      confirmedPhoneNumber := stripCountryCode (displayPhone p)\<rparr>)
                   in (case data of
                         None \<Rightarrow> s3\<lparr>scheduledCallInfo := None\<rparr>
                       | Some d \<Rightarrow>
                           (case next_scheduled_call d of
                              None \<Rightarrow> s3\<lparr>scheduledCallInfo := None\<rparr>
                            | Some c \<Rightarrow>
                                if has_scheduled_call d \<noteq> Some True then s3\<lparr>scheduledCallInfo := None\<rparr>
                                else
                                  let callStatus = map_option toUpperCase (call_status c);
                                      scheduledTime =
                                        (case scheduled c of
                                           None \<Rightarrow> None
                                         | Some str \<Rightarrow> if str = [] then None else parseDate str)
                                  in (case scheduledTime of
                                        None \<Rightarrow> s3\<lparr>scheduledCallInfo := None\<rparr>
                                      | Some t \<Rightarrow>
                                          if \<not> isCanceledStatus callStatus \<and> is_future d = Some True \<and> now < t
                                          then s3\<lparr>scheduledCallInfo :=
                                                    Some \<lparr>scheduledTime = t, isFuture = True,
                                                          info_status = call_status c\<rparr>\<rparr>
                                          else s3\<lparr>scheduledCallInfo := None\<rparr>))))
        in s2\<lparr>isCheckingCall := False\<rparr>)"

definition handleCancelScheduledCall ::
  "(string \<Rightarrow> instant option) \<Rightarrow> string option \<Rightarrow> bool \<Rightarrow> (js_error + cancel_result) \<Rightarrow>
   (js_error + status_data option) \<Rightarrow> instant \<Rightarrow> booking_state \<Rightarrow> booking_state" where
  \<comment> \<open>\<open>confirm\<close> is the answer to \<open>window.confirm\<close>, \<open>cancelOutcome\<close> what
      \<open>cancelScheduledCall\<close> settles with, \<open>statusOutcome\<close> and \<open>now\<close> go to the refresh\<close>
  "handleCancelScheduledCall parseDate candidateId confirm cancelOutcome statusOutcome now s =
     (if \<not> hasToken candidateId
      then s\<lparr>error := Some ''Missing required parameter: candidate_id must be provided''\<rparr>
      else if \<not> confirm then s
      else
        let s1 = s\<lparr>isCanceling := True, error := None\<rparr>;
            s2 =
              (case cancelOutcome of
                 Inl err \<Rightarrow>
                   s1\<lparr>error := Some (if message err \<noteq> [] then message err
                                      else ''Failed to cancel call. Please try again.'')\<rparr>
               | Inr result \<Rightarrow>
                   if canceled_count result > 0
                   then (loadScheduledCall parseDate candidateId statusOutcome now s1)
                          \<lparr>selectedDate := None, selectedTime := None\<rparr>
                   else s1\<lparr>error := Some ''No scheduled calls found to cancel''\<rparr>)
        in s2\<lparr>isCanceling := False\<rparr>)"

definition confirmDisabled :: "booking_state \<Rightarrow> bool" where
  \<comment> \<open>the \<open>disabled\<close> attribute of the confirm button of the modal, lines 1021 to 1026\<close>
  "confirmDisabled s =
     (if isLoading s \<or> isTriggeringCall s then True
      else
        let digits = confirmDigits (confirmedPhoneNumber s) in
        if digits = [] then True
        else \<not> isValidUKPhone (''+44'' @ digits))"

definition phoneInputChange :: "string \<Rightarrow> booking_state \<Rightarrow> booking_state" where
  \<comment> \<open>the \<open>onChange\<close> handler of the phone input: digits only, at most 11 of them\<close>
  "phoneInputChange typed s =
     (let v = filter isDigit typed in
      if length v \<le> 11 then s\<lparr>confirmedPhoneNumber := v\<rparr> else s)"

section \<open>Example inputs\<close>

definition futureCall :: status_data where
  "futureCall =
     \<lparr>has_scheduled_call = Some True,
      next_scheduled_call = Some \<lparr>scheduled = Some ''2025-03-10T14:30:00Z'', call_status = Some ''scheduled''\<rparr>,
      is_future = Some True, candidate_phone_number = Some ''07700123456''\<rparr>"

definition canceledCall :: status_data where
  "canceledCall =
     \<lparr>has_scheduled_call = Some True,
      next_scheduled_call = Some \<lparr>scheduled = Some ''2025-03-10T14:30:00Z'', call_status = Some ''CANCELED''\<rparr>,
      is_future = Some True, candidate_phone_number = None\<rparr>"

definition slotChosen :: booking_state where
  "slotChosen = initialState\<lparr>selectedDate := Some (2025, 3, 10), selectedTime := Some ''2:30 PM''\<rparr>"

definition onlyZero :: "unit number_ops" where
  \<comment> \<open>the operations on a type of numbers that holds the number 0 alone\<close>
  "onlyZero = \<lparr>isFalsy = (\<lambda>n. True), numberToString = (\<lambda>n. ''0'')\<rparr>"

definition unauthorized :: "unit response" where
  "unauthorized = \<lparr>status = 401, statusText = ''Unauthorized'', body = Some (JObj [(''detail'', JStr ''Token expired'')])\<rparr>"

definition loginGranted :: "unit response" where
  "loginGranted = \<lparr>status = 200, statusText = ''OK'', body = Some (JObj [(''access_token'', JStr ''fresh'')])\<rparr>"

definition loginRefused :: "unit response" where
  "loginRefused = \<lparr>status = 403, statusText = ''Forbidden'', body = None\<rparr>"

definition served :: "unit response" where
  "served = \<lparr>status = 200, statusText = ''OK'', body = Some (JObj [])\<rparr>"

definition getOptions :: fetch_options where
  "getOptions = \<lparr>opt_method = None, opt_body = None\<rparr>"

definition staleWorld :: "(js_error + unit response) list \<Rightarrow> unit world" where
  "staleWorld script = \<lparr>auth_token = Some ''stale'', pending = script, sent = []\<rparr>"

definition anonymousWorld :: "(js_error + unit response) list \<Rightarrow> unit world" where
  "anonymousWorld script = \<lparr>auth_token = None, pending = script, sent = []\<rparr>"

definition validationFailed :: "unit response" where
  "validationFailed =
     \<lparr>status = 422, statusText = ''Unprocessable Entity'',
      body = Some (JObj [(''detail'', JStr ''Phone number is not valid'')])\<rparr>"

definition emptyObject :: "unit response" where
  "emptyObject = \<lparr>status = 500, statusText = ''Internal Server Error'', body = Some (JObj [])\<rparr>"

definition shadowedToString :: "unit response" where
  "shadowedToString =
     \<lparr>status = 422, statusText = ''Unprocessable Entity'',
      body = Some (JObj [(''detail'', JObj [(''toString'', JNum ())])])\<rparr>"

section \<open>Properties of the phone functions\<close>

lemma removeSpaces_idem: "removeSpaces (removeSpaces s) = removeSpaces s"
  by (simp add: removeSpaces_def)

lemma dropWhile_none: "\<forall>c \<in> set xs. \<not> P c \<Longrightarrow> dropWhile P xs = xs"
  by (cases xs) auto

lemma trim_no_space: "\<forall>c \<in> set s. \<not> isSpace c \<Longrightarrow> trim s = s"
  by (simp add: trim_def dropWhile_none)

lemma set_trim: "set (trim s) \<subseteq> set s"
proof -
  have "set (dropWhile isSpace (rev (dropWhile isSpace s))) \<subseteq> set (rev (dropWhile isSpace s))"
    by (rule set_dropWhileD[THEN subsetI])
  also have "\<dots> \<subseteq> set s"
    using set_dropWhileD by fastforce
  finally show ?thesis by (simp add: trim_def)
qed

lemma confirmDigits_no_space: "\<forall>c \<in> set (confirmDigits x). \<not> isSpace c"
proof
  fix c assume "c \<in> set (confirmDigits x)"
  then have "c \<in> set (removeSpaces (stripCountryCode x))"
    using set_trim unfolding confirmDigits_def by blast
  then show "\<not> isSpace c" by (simp add: removeSpaces_def)
qed

lemma stripLeadingZeros_no_space:
  "\<forall>c \<in> set s. \<not> isSpace c \<Longrightarrow> \<forall>c \<in> set (stripLeadingZeros s). \<not> isSpace c"
  unfolding stripLeadingZeros_def using set_dropWhileD by fastforce

lemma stripLeadingZeros_idem: "stripLeadingZeros (stripLeadingZeros s) = stripLeadingZeros s"
  unfolding stripLeadingZeros_def by simp

lemma confirmDigits_plus44: "\<forall>c \<in> set d. \<not> isSpace c \<Longrightarrow> confirmDigits (''+44'' @ d) = d"
proof -
  assume a: "\<forall>c \<in> set d. \<not> isSpace c"
  have "stripCountryCode (''+44'' @ d) = d"
    by (simp add: stripCountryCode_def startsWith_def)
  moreover have "removeSpaces d = d"
    using a by (simp add: removeSpaces_def)
  ultimately show ?thesis
    using a by (simp add: confirmDigits_def trim_no_space)
qed

lemma confirmSchedulePhone_normalizes:
  "confirmSchedulePhone x = Inr p \<Longrightarrow> p = normalizePhone x \<and> isValidUKPhone p"
  by (auto simp: confirmSchedulePhone_def normalizePhone_def Let_def split: if_splits)

text \<open>
  C8. Phone-number normalization is idempotent: the normalization of
  \<open>handleConfirmSchedule\<close> (strip a \<open>+44\<close> prefix and whitespace, strip leading zeros,
  prepend \<open>+44\<close>) applied twice gives what it gives applied once, for every input
  string, and so does \<open>formatPhoneNumber\<close>.
\<close>

theorem normalize_idempotent:
  "normalizePhone (normalizePhone x) = normalizePhone x \<and>
   formatPhoneNumber (formatPhoneNumber x) = formatPhoneNumber x"
proof
  let ?d = "stripLeadingZeros (confirmDigits x)"
  have ns: "\<forall>c \<in> set ?d. \<not> isSpace c"
    by (rule stripLeadingZeros_no_space[OF confirmDigits_no_space])
  have "confirmDigits (normalizePhone x) = ?d"
    unfolding normalizePhone_def by (rule confirmDigits_plus44[OF ns])
  then show "normalizePhone (normalizePhone x) = normalizePhone x"
    by (simp add: normalizePhone_def stripLeadingZeros_idem)
next
  let ?c = "filter (\<lambda>c. isDigit c \<or> c = CHR ''+'') x"
  have f: "filter (\<lambda>c. isDigit c \<or> c = CHR ''+'') ?c = ?c" by simp
  show "formatPhoneNumber (formatPhoneNumber x) = formatPhoneNumber x"
  proof (cases "startsWith ?c ''+''")
    case True
    then show ?thesis by (simp add: formatPhoneNumber_def Let_def)
  next
    case False
    then show ?thesis
      by (simp add: formatPhoneNumber_def Let_def startsWith_def)
  qed
qed

lemma startsWith_append: "startsWith n (p @ q) \<Longrightarrow> startsWith n p"
proof -
  assume "startsWith n (p @ q)"
  then have "take (length p + length q) n = p @ q" by (simp add: startsWith_def)
  then have "take (length p) (take (length p + length q) n) = take (length p) (p @ q)" by simp
  then show ?thesis by (simp add: startsWith_def min_def)
qed

lemma three_digit_codes_covered:
  "startsWith n p \<Longrightarrow> p \<in> set validPrefixes \<Longrightarrow> list_ex (startsWith n) reducedPrefixes"
  unfolding validPrefixes_def reducedPrefixes_def
  using startsWith_append[of n "''1''"]
  by auto

lemma prefix_tables_agree:
  "list_ex (startsWith n) validPrefixes = list_ex (startsWith n) reducedPrefixes"
proof
  assume "list_ex (startsWith n) validPrefixes"
  then obtain p where "p \<in> set validPrefixes" "startsWith n p" by (auto simp: list_ex_iff)
  then show "list_ex (startsWith n) reducedPrefixes" using three_digit_codes_covered by blast
next
  assume "list_ex (startsWith n) reducedPrefixes"
  then show "list_ex (startsWith n) validPrefixes"
    by (auto simp: list_ex_iff validPrefixes_def reducedPrefixes_def)
qed

lemma digit_not_space: "isDigit c \<Longrightarrow> \<not> isSpace c"
  by (auto simp: isDigit_def isSpace_def)

lemma removeSpaces_plus44_digits:
  assumes "\<forall>c \<in> set n. isDigit c"
  shows "removeSpaces (''+44'' @ n) = ''+44'' @ n"
proof -
  have "filter (\<lambda>c. \<not> isSpace c) n = n"
    using assms digit_not_space by (simp add: filter_id_conv)
  moreover have "\<not> isSpace CHR ''+''" "\<not> isSpace CHR ''4''"
    by (simp_all add: isSpace_def)
  ultimately show ?thesis by (simp add: removeSpaces_def)
qed

text \<open>
  C9. Whatever prefix a number starts with, \<open>isValidUKPhone\<close> returns false when the
  national significant number (what follows the first three characters of the input once
  whitespace is removed) has fewer than 10 or more than 11 characters.
\<close>

theorem isValidUKPhone_rejects_bad_length:
  "length (drop 3 (removeSpaces phone)) < 10 \<or> length (drop 3 (removeSpaces phone)) > 11
   \<Longrightarrow> \<not> isValidUKPhone phone"
  by (auto simp: isValidUKPhone_def Let_def)

text \<open>
  C10. For a national significant number \<open>n\<close> of 10 or 11 digits,
  \<open>isValidUKPhone ('+44' + n)\<close> holds exactly when \<open>n\<close> starts with 7, 1, 20, 23, 24, 28
  or 29; and on every input the validator agrees with the one whose table has no
  three-digit city code, the catch-all prefix 1 covering each of them.
\<close>

theorem isValidUKPhone_decided_by_prefix:
  "((length n = 10 \<or> length n = 11) \<and> (\<forall>c \<in> set n. isDigit c) \<longrightarrow>
     isValidUKPhone (''+44'' @ n) =
       (startsWith n ''7'' \<or> startsWith n ''1'' \<or> startsWith n ''20'' \<or> startsWith n ''23'' \<or>
        startsWith n ''24'' \<or> startsWith n ''28'' \<or> startsWith n ''29'')) \<and>
   isValidUKPhone_reduced phone = isValidUKPhone phone"
proof (intro conjI impI)
  assume a: "(length n = 10 \<or> length n = 11) \<and> (\<forall>c \<in> set n. isDigit c)"
  then have c: "removeSpaces (''+44'' @ n) = ''+44'' @ n"
    using removeSpaces_plus44_digits by blast
  have "isValidUKPhone (''+44'' @ n) = list_ex (startsWith n) validPrefixes"
    using a unfolding isValidUKPhone_def c by (auto simp: Let_def startsWith_def)
  also have "\<dots> = list_ex (startsWith n) reducedPrefixes" by (rule prefix_tables_agree)
  also have "\<dots> = (startsWith n ''7'' \<or> startsWith n ''1'' \<or> startsWith n ''20'' \<or> startsWith n ''23'' \<or>
        startsWith n ''24'' \<or> startsWith n ''28'' \<or> startsWith n ''29'')"
    by (auto simp: reducedPrefixes_def)
  finally show "isValidUKPhone (''+44'' @ n) =
       (startsWith n ''7'' \<or> startsWith n ''1'' \<or> startsWith n ''20'' \<or> startsWith n ''23'' \<or>
        startsWith n ''24'' \<or> startsWith n ''28'' \<or> startsWith n ''29'')" .
next
  show "isValidUKPhone_reduced phone = isValidUKPhone phone"
    by (simp add: isValidUKPhone_reduced_def isValidUKPhone_def Let_def prefix_tables_agree)
qed

theorem isValidUKPhone_rejects_bad_length_witness:
  "length (drop 3 (removeSpaces ''+44 123'')) < 10 \<and> \<not> isValidUKPhone ''+44 123''"
  using isValidUKPhone_rejects_bad_length[of "''+44 123''"]
  by (simp add: removeSpaces_def isSpace_def)

theorem isValidUKPhone_decided_by_prefix_witness:
  "length ''7700123456'' = 10 \<and> list_all isDigit ''7700123456'' \<and>
   isValidUKPhone ''+447700123456'' \<and> startsWith ''7700123456'' ''7'' \<and>
   isValidUKPhone_reduced ''+447700123456''"
  using isValidUKPhone_decided_by_prefix[of "''7700123456''" "''+447700123456''"]
  by (simp add: isDigit_def startsWith_def)

section \<open>Properties of the conversion to UTC\<close>

lemma timeMatch_230pm: "timeMatch ''2:30 PM'' = Some (''2'', ''30'', ''PM'')"
  by code_simp

lemma hours_230pm: "to24Hour (toUpperCase ''PM'') (parseInt ''2'') = 14 \<and> parseInt ''30'' = 30"
  by code_simp

lemma dateUTC_march_10: "dateUTC 2025 2 10 14 30 = 1741617000000"
  by code_simp

lemma london_march_10:
  "wallClock europeLondon 1741617000000 =
     \<lparr>wc_year = 2025, wc_month = 3, wc_day = 10, wc_weekday = 1, wc_hour = 14, wc_minute = 30\<rparr>"
  by code_simp

lemma iso_march_10: "toISOString 1741617000000 = ''2025-03-10T14:30:00.000Z''"
  by code_simp

lemma selectedDateTime_march_10: "selectedDateTime (2025, 3, 10) ''2:30 PM'' = Inr 1741617000000"
  unfolding selectedDateTime_def Let_def timeMatch_230pm
  by (simp add: hours_230pm dateUTC_march_10 london_march_10)

lemma convertToISO8601_march_10:
  "convertToISO8601 (2025, 3, 10) ''2:30 PM'' = Inr ''2025-03-10T14:30:00.000Z''"
  unfolding convertToISO8601_def Let_def timeMatch_230pm
  by (simp add: hours_230pm dateUTC_march_10 london_march_10 iso_march_10)

lemma newDate_march_10: "newDate ''2025-03-10T14:30:00Z'' = Some 1741617000000"
  by code_simp

text \<open>
  C4. The date 2025-03-10 with the label \<open>2:30 PM\<close>, read as Europe/London time, gives
  the instant 2025-03-10T14:30:00Z, both in \<open>handleScheduleCall\<close> and in
  \<open>convertToISO8601\<close>: London is at UTC+0 on that date.
\<close>

theorem march_10_half_past_two:
  "selectedDateTime (2025, 3, 10) ''2:30 PM'' = Inr (dateUTC 2025 2 10 14 30) \<and>
   map_sum id toISOString (selectedDateTime (2025, 3, 10) ''2:30 PM'') = Inr ''2025-03-10T14:30:00.000Z'' \<and>
   convertToISO8601 (2025, 3, 10) ''2:30 PM'' = Inr ''2025-03-10T14:30:00.000Z'' \<and>
   newDate ''2025-03-10T14:30:00Z'' = Some (dateUTC 2025 2 10 14 30) \<and>
   newDate ''2025-03-10T14:30:00.000Z'' = Some (dateUTC 2025 2 10 14 30) \<and>
   europeLondon (dateUTC 2025 2 10 14 30) = 0"
proof -
  have "newDate ''2025-03-10T14:30:00.000Z'' = Some 1741617000000" by code_simp
  moreover have "europeLondon 1741617000000 = 0" by code_simp
  ultimately show ?thesis
    by (simp add: selectedDateTime_march_10 convertToISO8601_march_10 newDate_march_10
        dateUTC_march_10 iso_march_10)
qed

lemma timeMatch_11pm: "timeMatch ''11:00 PM'' = Some (''11'', ''00'', ''PM'')"
  by code_simp

lemma hours_11pm: "to24Hour (toUpperCase ''PM'') (parseInt ''11'') = 23 \<and> parseInt ''00'' = 0"
  by code_simp

lemma dateUTC_july_1: "dateUTC 2025 6 1 23 0 = 1751410800000"
  by code_simp

lemma london_july_1:
  "wallClock europeLondon 1751410800000 =
     \<lparr>wc_year = 2025, wc_month = 7, wc_day = 2, wc_weekday = 3, wc_hour = 0, wc_minute = 0\<rparr>"
  by code_simp

lemma iso_july_2: "toISOString 1751493600000 = ''2025-07-02T22:00:00.000Z''"
  by code_simp

lemma convertToISO8601_july_1:
  "convertToISO8601 (2025, 7, 1) ''11:00 PM'' = Inr ''2025-07-02T22:00:00.000Z''"
  unfolding convertToISO8601_def Let_def timeMatch_11pm
  by (simp add: hours_11pm dateUTC_july_1 london_july_1 iso_july_2)

lemma newDate_july_2: "newDate ''2025-07-02T22:00:00.000Z'' = Some 1751493600000"
  by code_simp

lemma london_july_2:
  "wallClock europeLondon 1751493600000 =
     \<lparr>wc_year = 2025, wc_month = 7, wc_day = 2, wc_weekday = 3, wc_hour = 23, wc_minute = 0\<rparr>"
  by code_simp

lemma display_july_2:
  "formatISO8601ForDisplay ''2025-07-02T22:00:00.000Z'' =
     \<lparr>date = Some \<lparr>weekday = 3, day = 2, month = 7, year = 2025\<rparr>,
      time = Some \<lparr>hour12 = 11, minute = 0, pm = True\<rparr>,
      timezone = ''Europe/London''\<rparr>"
  by (simp add: formatISO8601ForDisplay_def parseISO8601_def newDate_july_2
      toLocaleDateFields_def toLocaleTimeFields_def london_july_2)

lemma label_11pm_eval: "timeLabel 23 0 = ''11:00 PM'' \<and> ''11:00 PM'' \<in> set generateTimeSlots"
  by code_simp

lemma no_transition_near: "europeLondon (dateUTC 2025 6 1 0 0) = 60 \<and> europeLondon (dateUTC 2025 6 3 0 0) = 60"
  by code_simp

text \<open>
  Earlier in the evening of the same date the day does not change between UTC and London,
  and the round trip gives back what it was given.
\<close>

lemma timeMatch_1045pm: "timeMatch ''10:45 PM'' = Some (''10'', ''45'', ''PM'')"
  by code_simp

lemma hours_1045pm: "to24Hour (toUpperCase ''PM'') (parseInt ''10'') = 22 \<and> parseInt ''45'' = 45"
  by code_simp

lemma dateUTC_july_1_2245: "dateUTC 2025 6 1 22 45 = 1751409900000"
  by code_simp

lemma london_july_1_2245:
  "wallClock europeLondon 1751409900000 =
     \<lparr>wc_year = 2025, wc_month = 7, wc_day = 1, wc_weekday = 2, wc_hour = 23, wc_minute = 45\<rparr>"
  by code_simp

lemma iso_july_1_2145: "toISOString 1751406300000 = ''2025-07-01T21:45:00.000Z''"
  by code_simp

lemma convertToISO8601_july_1_1045pm:
  "convertToISO8601 (2025, 7, 1) ''10:45 PM'' = Inr ''2025-07-01T21:45:00.000Z''"
  unfolding convertToISO8601_def Let_def timeMatch_1045pm
  by (simp add: hours_1045pm dateUTC_july_1_2245 london_july_1_2245 iso_july_1_2145)

lemma display_july_1_2145:
  "formatISO8601ForDisplay ''2025-07-01T21:45:00.000Z'' =
     \<lparr>date = Some \<lparr>weekday = 2, day = 1, month = 7, year = 2025\<rparr>,
      time = Some \<lparr>hour12 = 10, minute = 45, pm = True\<rparr>,
      timezone = ''Europe/London''\<rparr>"
proof -
  have p: "newDate ''2025-07-01T21:45:00.000Z'' = Some 1751406300000" by code_simp
  have w: "wallClock europeLondon 1751406300000 =
     \<lparr>wc_year = 2025, wc_month = 7, wc_day = 1, wc_weekday = 2, wc_hour = 22, wc_minute = 45\<rparr>"
    by code_simp
  show ?thesis
    by (simp add: formatISO8601ForDisplay_def parseISO8601_def p w
        toLocaleDateFields_def toLocaleTimeFields_def)
qed

text \<open>
  On the same summer date \<open>handleScheduleCall\<close> moves the reference instant the other way:
  it subtracts the correction that \<open>convertToISO8601\<close> adds, and \<open>10:45 PM\<close> becomes
  23:45 UTC.
\<close>

lemma selectedDateTime_july_1:
  "selectedDateTime (2025, 7, 1) ''10:45 PM'' = Inr (dateUTC 2025 6 1 23 45)"
proof -
  have d: "dateUTC 2025 6 1 23 45 = 1751413500000" by code_simp
  show ?thesis
    unfolding selectedDateTime_def Let_def timeMatch_1045pm
    by (simp add: hours_1045pm dateUTC_july_1_2245 london_july_1_2245 d)
qed

text \<open>
  C1. The round trip through \<open>convertToISO8601\<close> and \<open>formatISO8601ForDisplay\<close> is to give
  back the date and the time of day it started from. On 2025-07-01, in the middle of
  British Summer Time, the label \<open>11:00 PM\<close> comes back as 11:00 pm of 2 July: the
  reference instant 23:00 UTC shows in London as hour 0 of the next day, the hour
  difference is taken as 23 hours, and the result is 2025-07-02T22:00:00Z.
\<close>

theorem summer_late_evening_round_trip:
  "''11:00 PM'' \<in> set generateTimeSlots \<and>
   europeLondon (dateUTC 2025 6 1 0 0) = 60 \<and> europeLondon (dateUTC 2025 6 3 0 0) = 60 \<and>
   convertToISO8601 (2025, 7, 1) ''11:00 PM'' = Inr ''2025-07-02T22:00:00.000Z'' \<and>
   formatISO8601ForDisplay ''2025-07-02T22:00:00.000Z'' =
     \<lparr>date = Some \<lparr>weekday = 3, day = 2, month = 7, year = 2025\<rparr>,
      time = Some \<lparr>hour12 = 11, minute = 0, pm = True\<rparr>,
      timezone = ''Europe/London''\<rparr>"
  by (simp only: label_11pm_eval no_transition_near convertToISO8601_july_1 display_july_2 simp_thms)

section \<open>Properties of the client\<close>

lemma httpLine_emptyObject: "httpLine emptyObject = ''HTTP 500: Internal Server Error''"
  by (simp add: httpLine_def emptyObject_def digitChar_def)

text \<open>
  C7, as the specification states it, has the status line as the last fallback of the
  message. For a JSON body that is an object without \<open>detail\<close>, here \<open>{}\<close> on a 500, the
  message is the default text the function starts from, not the status line.
\<close>

theorem handleApiError_default_message:
  "body emptyObject = Some (JObj []) \<and>
   handleApiError onlyZero emptyObject =
     Inr \<lparr>message = ''An error occurred'', error_status = Some 500\<rparr> \<and>
   httpLine emptyObject = ''HTTP 500: Internal Server Error'' \<and>
   httpLine emptyObject \<noteq> ''An error occurred''"
  by (simp add: handleApiError_def httpLine_emptyObject) (simp add: emptyObject_def)

text \<open>
  The conversion of the message to text is after the \<open>try\<close> block. When \<open>detail\<close> is an
  object with a key \<open>toString\<close>, as in \<open>{"detail": {"toString": 0}}\<close>, that conversion
  throws and no error value is returned.
\<close>

lemma handleApiError_shadowed_toString:
  "handleApiError onlyZero shadowedToString =
     Inl (newError ''Cannot convert object to primitive value'')"
  by (simp add: handleApiError_def shadowedToString_def)

lemma handleApiError_returns_or_detail_throws:
  assumes "handleApiError ops r = Inl e"
  shows "\<exists>kvs d. body r = Some (JObj kvs) \<and> map_of (rev kvs) ''detail'' = Some d \<and>
                truthy ops d \<and> toStringJS ops d = Inl e"
proof (cases "body r")
  case None
  with assms show ?thesis by (simp add: handleApiError_def)
next
  case (Some errorData)
  show ?thesis
  proof (cases errorData)
    case (JObj kvs)
    with Some assms show ?thesis
      by (auto simp: handleApiError_def split: option.splits if_splits sum.splits)
  qed (use Some assms in \<open>auto simp: handleApiError_def split: option.splits if_splits sum.splits\<close>)
qed

text \<open>
  C7, amended. On every response but those whose body has a truthy \<open>detail\<close> with no
  conversion to text, \<open>handleApiError\<close> returns an error value with the status of the
  response in its status field (a body that is not JSON and the read of \<open>detail\<close> from
  \<open>null\<close> are both caught). Its message is the \<open>detail\<close> of a JSON object body when that
  is truthy, as text, a string as it is; the body itself when it is a JSON string; the
  default \<open>An error occurred\<close> for any other JSON body but \<open>null\<close>; and the line
  \<open>HTTP status: statusText\<close> when the body is not JSON or is \<open>null\<close>.
\<close>

theorem handleApiError_message:
  "(handleApiError ops r = Inl e
      \<longrightarrow> (\<exists>kvs d. body r = Some (JObj kvs) \<and> map_of (rev kvs) ''detail'' = Some d \<and>
                    truthy ops d \<and> toStringJS ops d = Inl e)) \<and>
   (handleApiError ops r = Inr err \<longrightarrow> error_status err = Some (status r)) \<and>
   (body r = Some (JObj kvs) \<and> map_of (rev kvs) ''detail'' = Some d \<and> truthy ops d \<and>
    toStringJS ops d = Inr m
      \<longrightarrow> handleApiError ops r = Inr \<lparr>message = m, error_status = Some (status r)\<rparr>) \<and>
   (body r = Some (JObj kvs) \<and> map_of (rev kvs) ''detail'' = Some (JStr s) \<and> s \<noteq> []
      \<longrightarrow> handleApiError ops r = Inr \<lparr>message = s, error_status = Some (status r)\<rparr>) \<and>
   (body r = Some (JStr s)
      \<longrightarrow> handleApiError ops r = Inr \<lparr>message = s, error_status = Some (status r)\<rparr>) \<and>
   (body r = Some (JObj kvs) \<and> (\<forall>d. map_of (rev kvs) ''detail'' = Some d \<longrightarrow> \<not> truthy ops d)
      \<longrightarrow> handleApiError ops r =
            Inr \<lparr>message = ''An error occurred'', error_status = Some (status r)\<rparr>) \<and>
   (body r = Some (JBool b) \<or> body r = Some (JNum n) \<or> body r = Some (JArr xs)
      \<longrightarrow> handleApiError ops r =
            Inr \<lparr>message = ''An error occurred'', error_status = Some (status r)\<rparr>) \<and>
   (body r = None \<or> body r = Some JNull
      \<longrightarrow> handleApiError ops r = Inr \<lparr>message = httpLine r, error_status = Some (status r)\<rparr>)"
proof (intro conjI impI)
  assume "handleApiError ops r = Inl e"
  then show "\<exists>kvs d. body r = Some (JObj kvs) \<and> map_of (rev kvs) ''detail'' = Some d \<and>
                truthy ops d \<and> toStringJS ops d = Inl e"
    by (rule handleApiError_returns_or_detail_throws)
next
  assume "handleApiError ops r = Inr err"
  then show "error_status err = Some (status r)"
    by (auto simp: handleApiError_def Let_def split: sum.splits)
next
  assume "body r = Some (JObj kvs) \<and> map_of (rev kvs) ''detail'' = Some d \<and> truthy ops d \<and>
    toStringJS ops d = Inr m"
  then show "handleApiError ops r = Inr \<lparr>message = m, error_status = Some (status r)\<rparr>"
    by (simp add: handleApiError_def)
next
  assume "body r = Some (JObj kvs) \<and> map_of (rev kvs) ''detail'' = Some (JStr s) \<and> s \<noteq> []"
  then show "handleApiError ops r = Inr \<lparr>message = s, error_status = Some (status r)\<rparr>"
    by (simp add: handleApiError_def)
next
  assume "body r = Some (JStr s)"
  then show "handleApiError ops r = Inr \<lparr>message = s, error_status = Some (status r)\<rparr>"
    by (simp add: handleApiError_def)
next
  assume "body r = Some (JObj kvs) \<and> (\<forall>d. map_of (rev kvs) ''detail'' = Some d \<longrightarrow> \<not> truthy ops d)"
  then show "handleApiError ops r =
            Inr \<lparr>message = ''An error occurred'', error_status = Some (status r)\<rparr>"
    by (auto simp: handleApiError_def split: option.splits)
next
  assume "body r = Some (JBool b) \<or> body r = Some (JNum n) \<or> body r = Some (JArr xs)"
  then show "handleApiError ops r =
            Inr \<lparr>message = ''An error occurred'', error_status = Some (status r)\<rparr>"
    by (auto simp: handleApiError_def)
next
  assume "body r = None \<or> body r = Some JNull"
  then show "handleApiError ops r = Inr \<lparr>message = httpLine r, error_status = Some (status r)\<rparr>"
    by (auto simp: handleApiError_def)
qed

theorem handleApiError_message_witness:
  "handleApiError onlyZero validationFailed =
     Inr \<lparr>message = ''Phone number is not valid'', error_status = Some 422\<rparr> \<and>
   handleApiError onlyZero \<lparr>status = 400, statusText = ''Bad Request'', body = Some (JStr ''bad request'')\<rparr> =
     Inr \<lparr>message = ''bad request'', error_status = Some 400\<rparr> \<and>
   handleApiError onlyZero \<lparr>status = 500, statusText = ''Internal Server Error'',
      body = Some (JObj [(''error'', JStr ''boom'')])\<rparr> =
     Inr \<lparr>message = ''An error occurred'', error_status = Some 500\<rparr> \<and>
   handleApiError onlyZero \<lparr>status = 500, statusText = ''Internal Server Error'', body = Some (JArr [])\<rparr> =
     Inr \<lparr>message = ''An error occurred'', error_status = Some 500\<rparr> \<and>
   handleApiError onlyZero \<lparr>status = 502, statusText = ''Bad Gateway'', body = None\<rparr> =
     Inr \<lparr>message = ''HTTP 502: Bad Gateway'', error_status = Some 502\<rparr> \<and>
   body shadowedToString = Some (JObj [(''detail'', JObj [(''toString'', JNum ())])]) \<and>
   toStringJS onlyZero (JObj [(''toString'', JNum ())]) =
     Inl (newError ''Cannot convert object to primitive value'')"
proof -
  let ?r2 = "\<lparr>status = 400, statusText = ''Bad Request'', body = Some (JStr ''bad request'')\<rparr> :: unit response"
  let ?r3 = "\<lparr>status = 500, statusText = ''Internal Server Error'',
      body = Some (JObj [(''error'', JStr ''boom'')])\<rparr> :: unit response"
  let ?r4 = "\<lparr>status = 500, statusText = ''Internal Server Error'', body = Some (JArr [])\<rparr> :: unit response"
  let ?r5 = "\<lparr>status = 502, statusText = ''Bad Gateway'', body = None\<rparr> :: unit response"
  have 1: "handleApiError onlyZero validationFailed =
     Inr \<lparr>message = ''Phone number is not valid'', error_status = Some 422\<rparr>"
    using handleApiError_message[where ops = onlyZero and r = validationFailed
        and kvs = "[(''detail'', JStr ''Phone number is not valid'')]"
        and s = "''Phone number is not valid''"]
    by (simp add: validationFailed_def)
  have 2: "handleApiError onlyZero ?r2 = Inr \<lparr>message = ''bad request'', error_status = Some 400\<rparr>"
    using handleApiError_message[where ops = onlyZero and r = ?r2 and s = "''bad request''"] by simp
  have 3: "handleApiError onlyZero ?r3 = Inr \<lparr>message = ''An error occurred'', error_status = Some 500\<rparr>"
    using handleApiError_message[where ops = onlyZero and r = ?r3 and kvs = "[(''error'', JStr ''boom'')]"]
    by simp
  have 4: "handleApiError onlyZero ?r4 = Inr \<lparr>message = ''An error occurred'', error_status = Some 500\<rparr>"
    using handleApiError_message[where ops = onlyZero and r = ?r4 and xs = "[]"] by simp
  have h: "httpLine ?r5 = ''HTTP 502: Bad Gateway''"
    by (simp add: httpLine_def digitChar_def)
  have 5: "handleApiError onlyZero ?r5 = Inr \<lparr>message = ''HTTP 502: Bad Gateway'', error_status = Some 502\<rparr>"
    using handleApiError_message[where ops = onlyZero and r = ?r5] h by simp
  have t: "handleApiError onlyZero shadowedToString = Inl (newError ''Cannot convert object to primitive value'')"
    by (simp add: handleApiError_def shadowedToString_def)
  have 6: "\<exists>kvs d. body shadowedToString = Some (JObj kvs) \<and> map_of (rev kvs) ''detail'' = Some d \<and>
                truthy onlyZero d \<and>
                toStringJS onlyZero d = Inl (newError ''Cannot convert object to primitive value'')"
    using handleApiError_message[where ops = onlyZero and r = shadowedToString
        and e = "newError ''Cannot convert object to primitive value''"] t
    by blast
  have 7: "body shadowedToString = Some (JObj [(''detail'', JObj [(''toString'', JNum ())])])"
    by (simp add: shadowedToString_def)
  have 8: "toStringJS onlyZero (JObj [(''toString'', JNum ())]) =
     Inl (newError ''Cannot convert object to primitive value'')"
    using 6 7 by simp
  show ?thesis using 1 2 3 4 5 7 8 by blast
qed

lemma fetch_sent: "fetch req w = (res, w') \<Longrightarrow> sent w' = sent w @ [req] \<and> auth_token w' = auth_token w"
  by (auto simp: fetch_def split: list.splits)

lemma login_sent: "login ops w = (res, w') \<Longrightarrow> sent w' = sent w @ [loginRequest]"
  unfolding login_def
  by (auto simp: setAuthToken_def split: prod.splits sum.splits if_splits option.splits dest: fetch_sent)

lemma login_token: "login ops w = (Inr newToken, w') \<Longrightarrow> auth_token w' = Some newToken"
  unfolding login_def
  by (auto simp: setAuthToken_def split: prod.splits sum.splits if_splits option.splits)

lemma fetch_script:
  "fetch req w =
     (case pending w of
        [] \<Rightarrow> (Inl (newError ''Failed to fetch''), w\<lparr>sent := sent w @ [req]\<rparr>)
      | x # xs \<Rightarrow> (x, w\<lparr>pending := xs, sent := sent w @ [req]\<rparr>))"
  by (simp add: fetch_def)

text \<open>
  C3. For a request issued through \<open>apiRequest\<close>: when a token was present and the first
  response has status 401, one login request is sent; if the login fails, the first 401
  response is returned and nothing more is sent; if it succeeds, the original request is
  sent once more, with the new token, and what it answers is returned (the 401 again if
  that retry is rejected by the network). When no token was present, the original
  request is the only one sent, whatever it answers.
\<close>

theorem apiRequest_single_relogin:
  "(hasToken (auth_token w) \<and> pending w = Inr r # rest \<and> status r = 401 \<and>
      login ops (w\<lparr>pending := rest, sent := sent w @ [apiCall endpoint options (auth_token w)]\<rparr>) = (Inl e, w2)
    \<longrightarrow> apiRequest ops endpoint options w = (Inr r, w2) \<and>
        sent w2 = sent w @ [apiCall endpoint options (auth_token w), loginRequest]) \<and>
   (hasToken (auth_token w) \<and> pending w = Inr r # rest \<and> status r = 401 \<and>
      login ops (w\<lparr>pending := rest, sent := sent w @ [apiCall endpoint options (auth_token w)]\<rparr>) = (Inr newToken, w2)
    \<longrightarrow> (\<exists>w3. apiRequest ops endpoint options w =
                 ((case pending w2 of Inr r2 # _ \<Rightarrow> Inr r2 | _ \<Rightarrow> Inr r), w3) \<and>
              sent w3 = sent w @ [apiCall endpoint options (auth_token w), loginRequest,
                                  apiCall endpoint options (Some newToken)] \<and>
              auth_token w3 = Some newToken)) \<and>
   (\<not> hasToken (auth_token w)
    \<longrightarrow> (\<exists>w1. apiRequest ops endpoint options w =
                 ((case pending w of [] \<Rightarrow> Inl (newError ''Failed to fetch'') | x # _ \<Rightarrow> x), w1) \<and>
              sent w1 = sent w @ [apiCall endpoint options None]))"
proof (intro conjI impI)
  assume a: "hasToken (auth_token w) \<and> pending w = Inr r # rest \<and> status r = 401 \<and>
      login ops (w\<lparr>pending := rest, sent := sent w @ [apiCall endpoint options (auth_token w)]\<rparr>) = (Inl e, w2)"
  then show "apiRequest ops endpoint options w = (Inr r, w2)"
    by (simp add: apiRequest_def getAuthToken_def fetch_script)
  from a have "sent w2 = sent (w\<lparr>pending := rest, sent := sent w @ [apiCall endpoint options (auth_token w)]\<rparr>) @ [loginRequest]"
    using login_sent by blast
  then show "sent w2 = sent w @ [apiCall endpoint options (auth_token w), loginRequest]" by simp
next
  assume a: "hasToken (auth_token w) \<and> pending w = Inr r # rest \<and> status r = 401 \<and>
      login ops (w\<lparr>pending := rest, sent := sent w @ [apiCall endpoint options (auth_token w)]\<rparr>) = (Inr newToken, w2)"
  let ?first = "apiCall endpoint options (auth_token w)"
  let ?retry = "apiCall endpoint options (Some newToken)"
  from a have s2: "sent w2 = sent w @ [?first, loginRequest]"
    using login_sent by fastforce
  from a have t2: "auth_token w2 = Some newToken"
    using login_token by blast
  obtain res w3 where f: "fetch ?retry w2 = (res, w3)" by (cases "fetch ?retry w2")
  then have s3: "sent w3 = sent w2 @ [?retry]" and t3: "auth_token w3 = auth_token w2"
    using fetch_sent by blast+
  have res: "(case res of Inl x \<Rightarrow> Inr r | Inr r2 \<Rightarrow> Inr r2) =
             (case pending w2 of Inr r2 # _ \<Rightarrow> Inr r2 | _ \<Rightarrow> Inr r)"
    using f by (auto simp: fetch_script split: list.splits sum.splits)
  have "apiRequest ops endpoint options w = ((case res of Inl x \<Rightarrow> Inr r | Inr r2 \<Rightarrow> Inr r2), w3)"
    using a f by (simp add: apiRequest_def getAuthToken_def fetch_script split: sum.splits)
  then show "\<exists>w3. apiRequest ops endpoint options w =
                 ((case pending w2 of Inr r2 # _ \<Rightarrow> Inr r2 | _ \<Rightarrow> Inr r), w3) \<and>
              sent w3 = sent w @ [?first, loginRequest, ?retry] \<and> auth_token w3 = Some newToken"
    using res s2 s3 t2 t3 by simp
next
  assume a: "\<not> hasToken (auth_token w)"
  show "\<exists>w1. apiRequest ops endpoint options w =
                 ((case pending w of [] \<Rightarrow> Inl (newError ''Failed to fetch'') | x # _ \<Rightarrow> x), w1) \<and>
              sent w1 = sent w @ [apiCall endpoint options None]"
    using a
    by (auto simp: apiRequest_def getAuthToken_def fetch_script split: list.splits sum.splits)
qed

lemma login_refused_eval:
  "login onlyZero \<lparr>auth_token = Some ''stale'', pending = [Inr loginRefused],
          sent = [apiCall ''/core/candidate-bookings/7'' getOptions (Some ''stale'')]\<rparr>
   = (Inl \<lparr>message = ''HTTP 403: Forbidden'', error_status = Some 403\<rparr>,
      \<lparr>auth_token = Some ''stale'', pending = [],
       sent = [apiCall ''/core/candidate-bookings/7'' getOptions (Some ''stale''), loginRequest]\<rparr>)"
  by (simp add: login_def fetch_def loginRefused_def ok_def handleApiError_def httpLine_def digitChar_def)

lemma login_granted_eval:
  "login onlyZero \<lparr>auth_token = Some ''stale'', pending = [Inr loginGranted, Inr served],
          sent = [apiCall ''/core/candidate-bookings/7'' getOptions (Some ''stale'')]\<rparr>
   = (Inr ''fresh'',
      \<lparr>auth_token = Some ''fresh'', pending = [Inr served],
       sent = [apiCall ''/core/candidate-bookings/7'' getOptions (Some ''stale''), loginRequest]\<rparr>)"
  by (simp add: login_def fetch_def loginGranted_def ok_def setAuthToken_def)

theorem apiRequest_single_relogin_witness:
  "hasToken (auth_token (staleWorld [Inr unauthorized, Inr loginRefused])) \<and>
   status unauthorized = 401 \<and>
   fst (apiRequest onlyZero ''/core/candidate-bookings/7'' getOptions (staleWorld [Inr unauthorized, Inr loginRefused]))
     = Inr unauthorized \<and>
   sent (snd (apiRequest onlyZero ''/core/candidate-bookings/7'' getOptions (staleWorld [Inr unauthorized, Inr loginRefused])))
     = [apiCall ''/core/candidate-bookings/7'' getOptions (Some ''stale''), loginRequest] \<and>
   fst (apiRequest onlyZero ''/core/candidate-bookings/7'' getOptions
          (staleWorld [Inr unauthorized, Inr loginGranted, Inr served]))
     = Inr served \<and>
   sent (snd (apiRequest onlyZero ''/core/candidate-bookings/7'' getOptions
          (staleWorld [Inr unauthorized, Inr loginGranted, Inr served])))
     = [apiCall ''/core/candidate-bookings/7'' getOptions (Some ''stale''), loginRequest,
        apiCall ''/core/candidate-bookings/7'' getOptions (Some ''fresh'')] \<and>
   \<not> hasToken (auth_token (anonymousWorld [Inr unauthorized, Inr loginGranted, Inr served])) \<and>
   fst (apiRequest onlyZero ''/core/candidate-bookings/7'' getOptions
          (anonymousWorld [Inr unauthorized, Inr loginGranted, Inr served]))
     = Inr unauthorized \<and>
   sent (snd (apiRequest onlyZero ''/core/candidate-bookings/7'' getOptions
          (anonymousWorld [Inr unauthorized, Inr loginGranted, Inr served])))
     = [apiCall ''/core/candidate-bookings/7'' getOptions None]"
proof -
  let ?ep = "''/core/candidate-bookings/7''"
  let ?wA = "staleWorld [Inr unauthorized, Inr loginRefused]"
  let ?wB = "staleWorld [Inr unauthorized, Inr loginGranted, Inr served]"
  let ?wC = "anonymousWorld [Inr unauthorized, Inr loginGranted, Inr served]"
  have u: "status unauthorized = 401" by (simp add: unauthorized_def)
  have hA: "hasToken (auth_token ?wA)" by (simp add: staleWorld_def hasToken_def)
  have hC: "\<not> hasToken (auth_token ?wC)" by (simp add: anonymousWorld_def hasToken_def)
  have A: "apiRequest onlyZero ?ep getOptions ?wA =
             (Inr unauthorized,
              \<lparr>auth_token = Some ''stale'', pending = [],
               sent = [apiCall ?ep getOptions (Some ''stale''), loginRequest]\<rparr>)"
    using apiRequest_single_relogin[where ops = onlyZero and w = ?wA and r = unauthorized and rest = "[Inr loginRefused]"
        and endpoint = ?ep and options = getOptions
        and e = "\<lparr>message = ''HTTP 403: Forbidden'', error_status = Some 403\<rparr>"
        and ?w2.0 = "\<lparr>auth_token = Some ''stale'', pending = [],
               sent = [apiCall ?ep getOptions (Some ''stale''), loginRequest]\<rparr>"]
      u login_refused_eval
    by (simp add: staleWorld_def hasToken_def)
  have B: "\<exists>w3. apiRequest onlyZero ?ep getOptions ?wB = (Inr served, w3) \<and>
             sent w3 = [apiCall ?ep getOptions (Some ''stale''), loginRequest,
                        apiCall ?ep getOptions (Some ''fresh'')] \<and>
             auth_token w3 = Some ''fresh''"
    using apiRequest_single_relogin[where ops = onlyZero and w = ?wB and r = unauthorized
        and rest = "[Inr loginGranted, Inr served]"
        and endpoint = ?ep and options = getOptions and newToken = "''fresh''"
        and ?w2.0 = "\<lparr>auth_token = Some ''fresh'', pending = [Inr served],
               sent = [apiCall ?ep getOptions (Some ''stale''), loginRequest]\<rparr>"]
      u login_granted_eval
    by (simp add: staleWorld_def hasToken_def)
  have C: "\<exists>w1. apiRequest onlyZero ?ep getOptions ?wC = (Inr unauthorized, w1) \<and>
             sent w1 = [apiCall ?ep getOptions None]"
    using apiRequest_single_relogin[where ops = onlyZero and w = ?wC and endpoint = ?ep and options = getOptions] hC
    by (simp add: anonymousWorld_def)
  from B obtain w3 where B': "apiRequest onlyZero ?ep getOptions ?wB = (Inr served, w3)"
    "sent w3 = [apiCall ?ep getOptions (Some ''stale''), loginRequest, apiCall ?ep getOptions (Some ''fresh'')]"
    by blast
  from C obtain w1 where C': "apiRequest onlyZero ?ep getOptions ?wC = (Inr unauthorized, w1)"
    "sent w1 = [apiCall ?ep getOptions None]"
    by blast
  show ?thesis
    using u hA hC A B' C' by simp
qed

section \<open>Properties of the booking page\<close>

lemma loadScheduledCall_frame:
  "selectedDate (loadScheduledCall parseDate candidateId outcome now s) = selectedDate s \<and>
   selectedTime (loadScheduledCall parseDate candidateId outcome now s) = selectedTime s \<and>
   error (loadScheduledCall parseDate candidateId outcome now s) = error s"
  by (simp add: loadScheduledCall_def Let_def split: sum.splits option.splits)

text \<open>
  C2. After \<open>loadScheduledCall\<close> has processed a status response, the stored
  \<open>scheduledCallInfo\<close> is non-null only when the response has \<open>has_scheduled_call\<close> true, a
  \<open>next_scheduled_call\<close> payload is present, the status of the payload in upper case is
  neither \<open>CANCELED\<close> nor \<open>CANCELLED\<close>, \<open>is_future\<close> is true and the scheduled instant is
  strictly later than the time of evaluation. In particular a response with
  \<open>has_scheduled_call\<close> true, status \<open>CANCELED\<close> and \<open>is_future\<close> true leaves it null, and
  so does a failed fetch.
\<close>

theorem loadScheduledCall_active_only:
  "(hasToken candidateId \<and>
    scheduledCallInfo (loadScheduledCall parseDate candidateId (Inr data) now s) = Some info
    \<longrightarrow> (\<exists>d c str t.
           data = Some d \<and> has_scheduled_call d = Some True \<and> next_scheduled_call d = Some c \<and>
           \<not> isCanceledStatus (map_option toUpperCase (call_status c)) \<and>
           is_future d = Some True \<and>
           scheduled c = Some str \<and> parseDate str = Some t \<and> now < t \<and>
           info = \<lparr>scheduledTime = t, isFuture = True, info_status = call_status c\<rparr>)) \<and>
   (hasToken candidateId \<and> has_scheduled_call d0 = Some True \<and> is_future d0 = Some True \<and>
    next_scheduled_call d0 = Some c0 \<and> call_status c0 = Some ''CANCELED''
    \<longrightarrow> scheduledCallInfo (loadScheduledCall parseDate candidateId (Inr (Some d0)) now s) = None) \<and>
   (hasToken candidateId
    \<longrightarrow> scheduledCallInfo (loadScheduledCall parseDate candidateId (Inl err) now s) = None)"
proof (intro conjI impI)
  assume a: "hasToken candidateId \<and>
    scheduledCallInfo (loadScheduledCall parseDate candidateId (Inr data) now s) = Some info"
  then show "\<exists>d c str t.
           data = Some d \<and> has_scheduled_call d = Some True \<and> next_scheduled_call d = Some c \<and>
           \<not> isCanceledStatus (map_option toUpperCase (call_status c)) \<and>
           is_future d = Some True \<and>
           scheduled c = Some str \<and> parseDate str = Some t \<and> now < t \<and>
           info = \<lparr>scheduledTime = t, isFuture = True, info_status = call_status c\<rparr>"
    by (auto simp: loadScheduledCall_def Let_def split: option.splits if_splits)
next
  assume a: "hasToken candidateId \<and> has_scheduled_call d0 = Some True \<and> is_future d0 = Some True \<and>
    next_scheduled_call d0 = Some c0 \<and> call_status c0 = Some ''CANCELED''"
  have "toUpperCase ''CANCELED'' = ''CANCELED''" by code_simp
  then have "isCanceledStatus (map_option toUpperCase (call_status c0))"
    using a by (simp add: isCanceledStatus_def)
  then show "scheduledCallInfo (loadScheduledCall parseDate candidateId (Inr (Some d0)) now s) = None"
    using a by (simp add: loadScheduledCall_def Let_def split: option.splits)
next
  assume "hasToken candidateId"
  then show "scheduledCallInfo (loadScheduledCall parseDate candidateId (Inl err) now s) = None"
    by (simp add: loadScheduledCall_def Let_def)
qed

lemma upper_scheduled: "toUpperCase ''scheduled'' = ''SCHEDULED''"
  by code_simp

lemma newDate_call: "newDate ''2025-03-10T14:30:00Z'' = Some 1741617000000"
  by code_simp

lemma load_futureCall:
  "scheduledCallInfo (loadScheduledCall newDate (Some ''42'') (Inr (Some futureCall)) 1741600000000 initialState)
     = Some \<lparr>scheduledTime = 1741617000000, isFuture = True, info_status = Some ''scheduled''\<rparr>"
  by (simp add: loadScheduledCall_def Let_def futureCall_def hasToken_def newDate_call
      upper_scheduled isCanceledStatus_def initialState_def)

theorem loadScheduledCall_active_only_witness:
  "hasToken (Some ''42'') \<and>
   scheduledCallInfo (loadScheduledCall newDate (Some ''42'') (Inr (Some futureCall)) 1741600000000 initialState)
     = Some \<lparr>scheduledTime = 1741617000000, isFuture = True, info_status = Some ''scheduled''\<rparr> \<and>
   has_scheduled_call futureCall = Some True \<and> is_future futureCall = Some True \<and>
   (1741600000000 :: int) < 1741617000000 \<and>
   has_scheduled_call canceledCall = Some True \<and> is_future canceledCall = Some True \<and>
   map_option call_status (next_scheduled_call canceledCall) = Some (Some ''CANCELED'') \<and>
   scheduledCallInfo (loadScheduledCall newDate (Some ''42'') (Inr (Some canceledCall)) 1741600000000 initialState)
     = None"
proof -
  have h: "hasToken (Some ''42'')" by (simp add: hasToken_def)
  have c: "scheduledCallInfo (loadScheduledCall newDate (Some ''42'') (Inr (Some canceledCall)) 1741600000000 initialState) = None"
    using loadScheduledCall_active_only[where candidateId = "Some ''42''" and parseDate = newDate
        and ?d0.0 = canceledCall
        and ?c0.0 = "\<lparr>scheduled = Some ''2025-03-10T14:30:00Z'', call_status = Some ''CANCELED''\<rparr>"
        and now = 1741600000000 and s = initialState] h
    by (simp add: canceledCall_def)
  have f: "\<exists>d c str t.
           Some futureCall = Some d \<and> has_scheduled_call d = Some True \<and> next_scheduled_call d = Some c \<and>
           \<not> isCanceledStatus (map_option toUpperCase (call_status c)) \<and>
           is_future d = Some True \<and>
           scheduled c = Some str \<and> newDate str = Some t \<and> 1741600000000 < t \<and>
           \<lparr>scheduledTime = 1741617000000, isFuture = True, info_status = Some ''scheduled''\<rparr>
             = \<lparr>scheduledTime = t, isFuture = True, info_status = call_status c\<rparr>"
    using loadScheduledCall_active_only[where candidateId = "Some ''42''" and parseDate = newDate
        and data = "Some futureCall" and now = 1741600000000 and s = initialState
        and info = "\<lparr>scheduledTime = 1741617000000, isFuture = True, info_status = Some ''scheduled''\<rparr>"]
      h load_futureCall by blast
  show ?thesis
    using h c f load_futureCall by (simp add: futureCall_def canceledCall_def)
qed

text \<open>
  C6. When \<open>handleCancelScheduledCall\<close> receives a response whose \<open>canceled_count\<close> is 0,
  the error \<open>No scheduled calls found to cancel\<close> is set and the selected date and time
  stay as they were; the handler changes them only when the response has a
  \<open>canceled_count\<close> greater than 0, and then it clears both.
\<close>

theorem handleCancelScheduledCall_zero_count:
  "(hasToken candidateId \<and> confirm \<and> cancelOutcome = Inr result \<and> canceled_count result = 0
    \<longrightarrow> error (handleCancelScheduledCall parseDate candidateId confirm cancelOutcome statusOutcome now s)
          = Some ''No scheduled calls found to cancel'' \<and>
        selectedDate (handleCancelScheduledCall parseDate candidateId confirm cancelOutcome statusOutcome now s)
          = selectedDate s \<and>
        selectedTime (handleCancelScheduledCall parseDate candidateId confirm cancelOutcome statusOutcome now s)
          = selectedTime s) \<and>
   (selectedDate (handleCancelScheduledCall parseDate candidateId confirm cancelOutcome statusOutcome now s)
      \<noteq> selectedDate s \<or>
    selectedTime (handleCancelScheduledCall parseDate candidateId confirm cancelOutcome statusOutcome now s)
      \<noteq> selectedTime s
    \<longrightarrow> hasToken candidateId \<and> confirm \<and> (\<exists>r. cancelOutcome = Inr r \<and> 0 < canceled_count r)) \<and>
   (hasToken candidateId \<and> confirm \<and> cancelOutcome = Inr result \<and> 0 < canceled_count result
    \<longrightarrow> selectedDate (handleCancelScheduledCall parseDate candidateId confirm cancelOutcome statusOutcome now s)
          = None \<and>
        selectedTime (handleCancelScheduledCall parseDate candidateId confirm cancelOutcome statusOutcome now s)
          = None)"
  by (auto simp: handleCancelScheduledCall_def Let_def split: sum.splits if_splits)

theorem handleCancelScheduledCall_zero_count_witness:
  "hasToken (Some ''42'') \<and>
   error (handleCancelScheduledCall newDate (Some ''42'') True (Inr \<lparr>canceled_count = 0\<rparr>) (Inr None) 0 slotChosen)
     = Some ''No scheduled calls found to cancel'' \<and>
   selectedDate (handleCancelScheduledCall newDate (Some ''42'') True (Inr \<lparr>canceled_count = 0\<rparr>) (Inr None) 0 slotChosen)
     = Some (2025, 3, 10) \<and>
   selectedTime (handleCancelScheduledCall newDate (Some ''42'') True (Inr \<lparr>canceled_count = 0\<rparr>) (Inr None) 0 slotChosen)
     = Some ''2:30 PM'' \<and>
   selectedDate (handleCancelScheduledCall newDate (Some ''42'') True (Inr \<lparr>canceled_count = 1\<rparr>) (Inr None) 0 slotChosen)
     = None \<and>
   selectedTime (handleCancelScheduledCall newDate (Some ''42'') True (Inr \<lparr>canceled_count = 1\<rparr>) (Inr None) 0 slotChosen)
     = None"
proof -
  have h: "hasToken (Some ''42'')" by (simp add: hasToken_def)
  have z: "error (handleCancelScheduledCall newDate (Some ''42'') True (Inr \<lparr>canceled_count = 0\<rparr>) (Inr None) 0 slotChosen)
          = Some ''No scheduled calls found to cancel'' \<and>
        selectedDate (handleCancelScheduledCall newDate (Some ''42'') True (Inr \<lparr>canceled_count = 0\<rparr>) (Inr None) 0 slotChosen)
          = selectedDate slotChosen \<and>
        selectedTime (handleCancelScheduledCall newDate (Some ''42'') True (Inr \<lparr>canceled_count = 0\<rparr>) (Inr None) 0 slotChosen)
          = selectedTime slotChosen"
    using handleCancelScheduledCall_zero_count[where candidateId = "Some ''42''" and confirm = True
        and cancelOutcome = "Inr \<lparr>canceled_count = 0\<rparr>" and result = "\<lparr>canceled_count = 0\<rparr>"
        and parseDate = newDate and statusOutcome = "Inr None" and now = 0 and s = slotChosen] h
    by simp
  have p: "selectedDate (handleCancelScheduledCall newDate (Some ''42'') True (Inr \<lparr>canceled_count = 1\<rparr>) (Inr None) 0 slotChosen)
          = None \<and>
        selectedTime (handleCancelScheduledCall newDate (Some ''42'') True (Inr \<lparr>canceled_count = 1\<rparr>) (Inr None) 0 slotChosen)
          = None"
    using handleCancelScheduledCall_zero_count[where candidateId = "Some ''42''" and confirm = True
        and cancelOutcome = "Inr \<lparr>canceled_count = 1\<rparr>" and result = "\<lparr>canceled_count = 1\<rparr>"
        and parseDate = newDate and statusOutcome = "Inr None" and now = 0 and s = slotChosen] h
    by simp
  show ?thesis using h z p by (simp add: slotChosen_def initialState_def)
qed

lemma confirmDigits_trunk: "confirmDigits ''07700123456'' = ''07700123456''"
  by code_simp

lemma valid_trunk: "\<not> isValidUKPhone ''+4407700123456'' \<and> isValidUKPhone ''+447700123456''"
  by code_simp

lemma confirmDisabled_without_trunk_zero:
  assumes "take 1 (confirmDigits (confirmedPhoneNumber s)) \<noteq> ''0''"
  shows "confirmDisabled s =
           (isLoading s \<or> isTriggeringCall s \<or> \<not> isValidUKPhone (normalizePhone (confirmedPhoneNumber s)))"
proof -
  let ?d = "confirmDigits (confirmedPhoneNumber s)"
  have z: "stripLeadingZeros ?d = ?d"
    using assms by (cases ?d) (simp_all add: stripLeadingZeros_def)
  have e: "\<not> isValidUKPhone ''+44''"
    by code_simp
  show ?thesis
  proof (cases "?d = []")
    case True
    then show ?thesis
      by (simp add: confirmDisabled_def normalizePhone_def e stripLeadingZeros_def)
  next
    case False
    then show ?thesis
      by (simp add: confirmDisabled_def normalizePhone_def z)
  qed
qed

text \<open>
  C5. The confirm button is to be disabled exactly when a submission is in flight or the
  entered number, normalized as \<open>handleConfirmSchedule\<close> normalizes it, fails the
  validation. With the eleven digits \<open>07700123456\<close> typed into the input and nothing in
  flight, the normalized number \<open>+447700123456\<close> is valid and \<open>handleConfirmSchedule\<close> would
  accept it, yet the button is disabled: its expression validates \<open>+4407700123456\<close>, the
  leading zero not removed.
\<close>

theorem confirm_button_trunk_zero:
  "phoneInputChange ''07700123456'' initialState = initialState\<lparr>confirmedPhoneNumber := ''07700123456''\<rparr> \<and>
   \<not> isLoading (initialState\<lparr>confirmedPhoneNumber := ''07700123456''\<rparr>) \<and>
   \<not> isTriggeringCall (initialState\<lparr>confirmedPhoneNumber := ''07700123456''\<rparr>) \<and>
   normalizePhone ''07700123456'' = ''+447700123456'' \<and>
   isValidUKPhone (normalizePhone ''07700123456'') \<and>
   confirmSchedulePhone ''07700123456'' = Inr ''+447700123456'' \<and>
   confirmDisabled (initialState\<lparr>confirmedPhoneNumber := ''07700123456''\<rparr>)"
proof -
  have 1: "phoneInputChange ''07700123456'' initialState = initialState\<lparr>confirmedPhoneNumber := ''07700123456''\<rparr>"
    by (simp add: phoneInputChange_def isDigit_def)
  have 2: "normalizePhone ''07700123456'' = ''+447700123456''"
    by (simp add: normalizePhone_def confirmDigits_trunk stripLeadingZeros_def)
  have 3: "confirmSchedulePhone ''07700123456'' = Inr ''+447700123456''"
    by (simp add: confirmSchedulePhone_def confirmDigits_trunk stripLeadingZeros_def valid_trunk)
  have 4: "confirmDisabled (initialState\<lparr>confirmedPhoneNumber := ''07700123456''\<rparr>)"
    by (simp add: confirmDisabled_def confirmDigits_trunk valid_trunk initialState_def)
  show ?thesis using 1 2 3 4 valid_trunk by (simp add: initialState_def)
qed

end
